theory Spec2Isabelle
  imports Complex_Main
begin

section \<open>Numbers and risk-gate constants (types.ts)\<close>

text \<open>
  JavaScript numbers are modelled as real numbers: every claim below is about
  comparisons, sums and products of the values, and the strings of the exchange
  (\<open>closedPnl\<close>, \<open>accountValue\<close>) are taken as already parsed by
  \<open>parseFloat\<close>. \<open>RISK_GATES\<close> is the constant table of \<open>types.ts\<close>.
\<close>

definition MIN_TRADES :: nat where "MIN_TRADES = 10"
definition MIN_WINRATE :: real where "MIN_WINRATE = 45 / 100"
definition MIN_TOTAL_PNL :: real where "MIN_TOTAL_PNL = - 500"
definition MAX_DRAWDOWN :: real where "MAX_DRAWDOWN = 15 / 100"
definition MAX_DAILY_TRADES :: nat where "MAX_DAILY_TRADES = 50"
definition DRAWDOWN_KILL :: real where "DRAWDOWN_KILL = 10 / 100"
definition AGENT_PROFIT_SHARE :: real where "AGENT_PROFIT_SHARE = 80 / 100"
definition FIRM_PROFIT_SHARE :: real where "FIRM_PROFIT_SHARE = 20 / 100"

text \<open>\<open>Math.round\<close>: the nearest integer, a tie going up.\<close>

definition Math_round :: "real \<Rightarrow> real" where
  "Math_round x = of_int \<lfloor>x + 1 / 2\<rfloor>"

section \<open>Performance analyzer (server.ts, analyzePnL)\<close>

text \<open>
  The five variables of the loop over the fills. \<open>analyze_step\<close> is one
  iteration of the body, in the order of the source; \<open>analyze_loop\<close> is the
  \<open>for ... of\<close> loop.
\<close>

record pnl_state =
  totalPnl :: real
  wins :: nat
  peak :: real
  maxDrawdown :: real
  runningPnl :: real

definition pnl_init :: pnl_state where
  "pnl_init = \<lparr>totalPnl = 0, wins = 0, peak = 0, maxDrawdown = 0, runningPnl = 0\<rparr>"

definition analyze_step :: "pnl_state \<Rightarrow> real \<Rightarrow> pnl_state" where
  "analyze_step s pnl =
     (let running = runningPnl s + pnl;
          tot = totalPnl s + pnl;
          w = (if pnl > 0 then wins s + 1 else wins s);
          pk = (if running > peak s then running else peak s);
          dd = (if pk > 0 then (pk - running) / pk else 0);
          mdd = (if dd > maxDrawdown s then dd else maxDrawdown s)
      in \<lparr>totalPnl = tot, wins = w, peak = pk, maxDrawdown = mdd, runningPnl = running\<rparr>)"

fun analyze_loop :: "pnl_state \<Rightarrow> real list \<Rightarrow> pnl_state" where
  "analyze_loop s [] = s"
| "analyze_loop s (pnl # fills) = analyze_loop (analyze_step s pnl) fills"


text \<open>
  The reasons are template strings in the source; a constructor stands for each
  template and carries the values the template interpolates.
\<close>

datatype reason =
  InsufficientTrades nat nat
| WinRateBelow real
| PnlBelow real
| DrawdownAbove real

record metrics =
  total_pnl :: real
  win_rate :: real
  max_drawdown :: real
  total_trades :: nat
  passes :: bool
  reasons :: "reason list"

definition gate_reasons :: "real \<Rightarrow> real \<Rightarrow> real \<Rightarrow> reason list" where
  "gate_reasons winRate tot mdd =
     (if winRate < MIN_WINRATE then [WinRateBelow winRate] else []) @
     (if tot < MIN_TOTAL_PNL then [PnlBelow tot] else []) @
     (if mdd > MAX_DRAWDOWN then [DrawdownAbove mdd] else [])"

definition analyzePnL :: "real list \<Rightarrow> metrics" where
  "analyzePnL fills =
     (if length fills < MIN_TRADES then
        \<lparr>total_pnl = 0, win_rate = 0, max_drawdown = 0, total_trades = length fills,
         passes = False, reasons = [InsufficientTrades (length fills) MIN_TRADES]\<rparr>
      else
        (let s = analyze_loop pnl_init fills;
             winRate = real (wins s) / real (length fills);
             rs = gate_reasons winRate (totalPnl s) (maxDrawdown s)
         in \<lparr>total_pnl = Math_round (totalPnl s * 100) / 100,
             win_rate = Math_round (winRate * 1000) / 1000,
             max_drawdown = Math_round (maxDrawdown s * 1000) / 1000,
             total_trades = length fills,
             passes = (length rs = 0), reasons = rs\<rparr>))"

section \<open>Persistence (db.ts)\<close>

text \<open>
  The table \<open>agents\<close> has eight columns; \<open>id\<close> is its primary key and
  \<open>hyperliquid_address\<close> is \<open>NOT NULL UNIQUE\<close>. The table
  \<open>funded_wallets\<close> has \<open>address\<close> as primary key. A table is the list
  of its rows in insertion order; the database is the pair of tables.
\<close>

datatype agent_status = Active | Revoked

record agent_row =
  col_id :: string
  col_hyperliquid_address :: string
  col_funded_wallet_address :: string
  col_current_pnl :: real
  col_firm_profit :: real
  col_agent_profit :: real
  col_trade_count :: nat
  col_status :: agent_status

record FundedWallet =
  address :: string
  api_id :: string
  assigned_to :: "string option"

record db =
  agents :: "agent_row list"
  funded_wallets :: "FundedWallet list"

text \<open>
  An object that the program treats as an \<open>Agent\<close> (types.ts). The handlers
  build one with every field of the interface; \<open>getAgent\<close> returns a table
  row cast to \<open>Agent\<close>, an object whose keys are the column names. A key
  the object does not have reads as \<open>undefined\<close>, here \<open>None\<close>:
  \<open>hl_address\<close>, \<open>initial_capital\<close> and \<open>created_at\<close> on a row,
  \<open>hyperliquid_address\<close> on an object built by a handler.
\<close>

record Agent =
  agent_id :: string
  hl_address :: "string option"
  hyperliquid_address :: "string option"
  funded_wallet_address :: string
  initial_capital :: "real option"
  current_pnl :: real
  agent_profit :: real
  firm_profit :: real
  status :: agent_status
  trade_count :: nat
  created_at :: "string option"

definition row_as_Agent :: "agent_row \<Rightarrow> Agent" where
  "row_as_Agent r =
     \<lparr>agent_id = col_id r, hl_address = None,
      hyperliquid_address = Some (col_hyperliquid_address r),
      funded_wallet_address = col_funded_wallet_address r, initial_capital = None,
      current_pnl = col_current_pnl r, agent_profit = col_agent_profit r,
      firm_profit = col_firm_profit r, status = col_status r,
      trade_count = col_trade_count r, created_at = None\<rparr>"

definition getAgent :: "db \<Rightarrow> string \<Rightarrow> Agent option" where
  "getAgent d i = map_option row_as_Agent (find (\<lambda>r. col_id r = i) (agents d))"

definition getAgentByHyperliquidAddress :: "db \<Rightarrow> string \<Rightarrow> Agent option" where
  "getAgentByHyperliquidAddress d a =
     map_option row_as_Agent (find (\<lambda>r. col_hyperliquid_address r = a) (agents d))"

text \<open>
  \<open>saveAgent\<close> binds the named parameters of its statement to the keys of the
  object it is given (\<open>stmt.run(agent)\<close>). The statement names
  \<open>@hl_address\<close>; for an object without that key the binding raises
  \<open>RangeError: Missing named parameter\<close>, and a \<open>NULL\<close> in its place would
  violate \<open>NOT NULL\<close> on a column without a default: either way the call
  throws and writes nothing. Keys the statement does not name are ignored, so
  \<open>initial_capital\<close> and \<open>created_at\<close> are dropped. \<open>INSERT OR REPLACE\<close>
  deletes every row that conflicts on the primary key or on the unique column
  before it inserts the new row.
\<close>

datatype db_error = MissingNamedParameter string

definition agent_columns :: "Agent \<Rightarrow> string \<Rightarrow> agent_row" where
  "agent_columns agent hl =
     \<lparr>col_id = agent_id agent, col_hyperliquid_address = hl,
      col_funded_wallet_address = funded_wallet_address agent,
      col_current_pnl = current_pnl agent, col_firm_profit = firm_profit agent,
      col_agent_profit = agent_profit agent, col_trade_count = trade_count agent,
      col_status = status agent\<rparr>"

definition saveAgent :: "Agent \<Rightarrow> db \<Rightarrow> db_error + db" where
  "saveAgent agent d =
     (case hl_address agent of
        None \<Rightarrow> Inl (MissingNamedParameter ''hl_address'')
      | Some hl \<Rightarrow>
          Inr (d\<lparr>agents :=
                 filter (\<lambda>r. col_id r \<noteq> agent_id agent \<and> col_hyperliquid_address r \<noteq> hl)
                   (agents d)
                 @ [agent_columns agent hl]\<rparr>))"

definition getAvailableWallet :: "db \<Rightarrow> FundedWallet option" where
  "getAvailableWallet d = find (\<lambda>w. assigned_to w = None) (funded_wallets d)"

definition getWalletForAgent :: "db \<Rightarrow> string \<Rightarrow> FundedWallet option" where
  "getWalletForAgent d agentId = find (\<lambda>w. assigned_to w = Some agentId) (funded_wallets d)"

definition assignWallet :: "string \<Rightarrow> string \<Rightarrow> db \<Rightarrow> db" where
  "assignWallet walletAddress agentId d =
     d\<lparr>funded_wallets :=
         map (\<lambda>w. if address w = walletAddress then w\<lparr>assigned_to := Some agentId\<rparr> else w)
           (funded_wallets d)\<rparr>"

section \<open>Balance of a wallet (server.ts, getBalance)\<close>

text \<open>
  The two exchange reads are arguments: \<open>None\<close> is a read that threw. Each
  read is inside its own \<open>try\<close> with an empty \<open>catch\<close>, so
  \<open>getBalance\<close> itself never throws: a failed read leaves its values at 0.
\<close>

record balance =
  accountValue :: real
  totalMarginUsed :: real
  withdrawable :: real

definition getBalance :: "balance option \<Rightarrow> (string \<times> real) list option \<Rightarrow> balance" where
  "getBalance clearinghouseState spotClearinghouseState =
     (let perpsValue = (case clearinghouseState of Some st \<Rightarrow> accountValue st | None \<Rightarrow> 0);
          margin = (case clearinghouseState of Some st \<Rightarrow> totalMarginUsed st | None \<Rightarrow> 0);
          wd = (case clearinghouseState of Some st \<Rightarrow> withdrawable st | None \<Rightarrow> 0);
          spotValue =
            (case spotClearinghouseState of
               None \<Rightarrow> 0
             | Some balances \<Rightarrow>
                 (case find (\<lambda>b. fst b = ''USDC'') balances of
                    Some spotUsdc \<Rightarrow> snd spotUsdc
                  | None \<Rightarrow> 0))
      in \<lparr>accountValue = perpsValue + spotValue, totalMarginUsed = margin, withdrawable = wd\<rparr>)"

section \<open>Onboarding (server.ts, POST /evaluate)\<close>

text \<open>
  What the handler reads from outside the database: the result of
  \<open>verifyMessage\<close> and of the fills read (\<open>None\<close>: the call threw, which
  the outer \<open>catch\<close> turns into status 500), the two balance reads, the
  fresh UUID, the clock, and the \<open>BYPASS_PNL_CHECK\<close> setting. The request
  body is taken as already accepted by \<open>EvaluateInputSchema\<close>.
\<close>

record evaluate_env =
  verifyMessage :: "bool option"
  userFills :: "real list option"
  clearinghouse :: "balance option"
  spotClearinghouse :: "(string \<times> real) list option"
  randomUUID :: string
  clock :: string
  bypassPnl :: bool

datatype evaluate_outcome =
  AlreadyRegistered Agent
| InvalidSignature
| Rejected metrics
| NoCapacity
| Approved Agent metrics
| ApprovedBypass Agent metrics
| InternalServerError

text \<open>
  The handler suspends at every \<open>await\<close>. \<open>evaluate_select\<close> is the part
  up to the \<open>await\<close> of \<open>getBalance\<close> (steps 1 to 4, which only read the
  database); \<open>evaluate_commit\<close> is the part that runs when the balance has
  arrived (steps 5 and 6, which write). \<open>evaluate\<close> is one request handled
  without another request in between.
\<close>

definition evaluate_select ::
  "evaluate_env \<Rightarrow> db \<Rightarrow> string \<Rightarrow> evaluate_outcome + FundedWallet \<times> metrics" where
  "evaluate_select env d addr =
     (case getAgentByHyperliquidAddress d addr of
        Some existingAgent \<Rightarrow> Inl (AlreadyRegistered existingAgent)
      | None \<Rightarrow>
          (case verifyMessage env of
             None \<Rightarrow> Inl InternalServerError
           | Some isValid \<Rightarrow>
               if \<not> isValid then Inl InvalidSignature
               else
                 (case userFills env of
                    None \<Rightarrow> Inl InternalServerError
                  | Some fills \<Rightarrow>
                      (let m = analyzePnL fills in
                       if \<not> passes m \<and> \<not> bypassPnl env then Inl (Rejected m)
                       else
                         (case getAvailableWallet d of
                            None \<Rightarrow> Inl NoCapacity
                          | Some wallet \<Rightarrow> Inr (wallet, m))))))"

definition evaluate_commit ::
  "evaluate_env \<Rightarrow> db \<Rightarrow> string \<Rightarrow> FundedWallet \<Rightarrow> metrics \<Rightarrow> evaluate_outcome \<times> db" where
  "evaluate_commit env d addr wallet m =
     (let initialCapital = accountValue (getBalance (clearinghouse env) (spotClearinghouse env));
          agent = \<lparr>agent_id = randomUUID env, hl_address = Some addr,
                   hyperliquid_address = None,
                   funded_wallet_address = address wallet,
                   initial_capital = Some initialCapital,
                   current_pnl = 0, agent_profit = 0, firm_profit = 0,
                   status = Active, trade_count = 0, created_at = Some (clock env)\<rparr>;
          d1 = assignWallet (address wallet) (agent_id agent) d
      in case saveAgent agent d1 of
           Inl e \<Rightarrow> (InternalServerError, d1)
         | Inr d2 \<Rightarrow> (if passes m then Approved agent m else ApprovedBypass agent m, d2))"

definition evaluate :: "evaluate_env \<Rightarrow> db \<Rightarrow> string \<Rightarrow> evaluate_outcome \<times> db" where
  "evaluate env d addr =
     (case evaluate_select env d addr of
        Inl out \<Rightarrow> (out, d)
      | Inr (wallet, m) \<Rightarrow> evaluate_commit env d addr wallet m)"

section \<open>Trading (server.ts, POST /trade)\<close>

text \<open>
  The drawdown of the handler. \<open>agent.initial_capital > 0\<close> is false when the
  key is absent.
\<close>

definition drawdown_of :: "Agent \<Rightarrow> balance \<Rightarrow> real" where
  "drawdown_of agent bal =
     (case initial_capital agent of
        Some c \<Rightarrow> if c > 0 then (c - accountValue bal) / c else 0
      | None \<Rightarrow> 0)"

datatype gate_decision =
  NotFound
| Forbidden
| RateLimited
| NoWalletAssigned
| ForbiddenDrawdown real
| Authorized Agent FundedWallet

text \<open>
  The \<open>try\<close> block of the drawdown check. The \<open>catch\<close> around it is empty:
  when \<open>saveAgent\<close> throws, the response is not sent and the handler goes on
  to place the order, with the status already changed on the object in memory.
\<close>

definition drawdown_check :: "Agent \<Rightarrow> FundedWallet \<Rightarrow> balance \<Rightarrow> db \<Rightarrow> gate_decision \<times> db" where
  "drawdown_check agent wallet bal d =
     (let drawdown = drawdown_of agent bal in
      if drawdown \<ge> DRAWDOWN_KILL then
        (let agent1 = agent\<lparr>status := Revoked\<rparr> in
         case saveAgent agent1 d of
           Inr d1 \<Rightarrow> (ForbiddenDrawdown drawdown, d1)
         | Inl e \<Rightarrow> (Authorized agent1 wallet, d))
      else (Authorized agent wallet, d))"

text \<open>The handler up to the drawdown check: every way a trade is refused.\<close>

definition trade_gate ::
  "balance option \<Rightarrow> (string \<times> real) list option \<Rightarrow> db \<Rightarrow> string \<Rightarrow> gate_decision \<times> db" where
  "trade_gate clearinghouseState spotClearinghouseState d agentId =
     (case getAgent d agentId of
        None \<Rightarrow> (NotFound, d)
      | Some agent \<Rightarrow>
          if status agent = Revoked then (Forbidden, d)
          else if trade_count agent \<ge> MAX_DAILY_TRADES then (RateLimited, d)
          else
            (case getWalletForAgent d (agent_id agent) of
               None \<Rightarrow> (NoWalletAssigned, d)
             | Some wallet \<Rightarrow>
                 drawdown_check agent wallet
                   (getBalance clearinghouseState spotClearinghouseState) d))"

text \<open>
  The profit split of the handler: the branch on the sign of \<open>closedPnl\<close>,
  and around it the increment of \<open>trade_count\<close> and the read of the latest
  fill (\<open>None\<close>: the read threw, which the empty \<open>catch\<close> ignores).
\<close>

record profit_split =
  closed_pnl :: real
  agent_share :: real
  firm_share :: real

definition split_closed_pnl :: "Agent \<Rightarrow> real \<Rightarrow> Agent \<times> profit_split option" where
  "split_closed_pnl agent closedPnl =
     (if closedPnl > 0 then
        (let agentShare = closedPnl * AGENT_PROFIT_SHARE;
             firmShare = closedPnl * FIRM_PROFIT_SHARE
         in (agent\<lparr>agent_profit := agent_profit agent + agentShare,
                    firm_profit := firm_profit agent + firmShare,
                    current_pnl := current_pnl agent + closedPnl\<rparr>,
             Some \<lparr>closed_pnl = closedPnl, agent_share = agentShare, firm_share = firmShare\<rparr>))
      else if closedPnl < 0 then
        (agent\<lparr>current_pnl := current_pnl agent + closedPnl\<rparr>, None)
      else (agent, None))"

definition settle_trade :: "Agent \<Rightarrow> real list option \<Rightarrow> Agent \<times> profit_split option" where
  "settle_trade agent walletFills =
     (let agent1 = agent\<lparr>trade_count := trade_count agent + 1\<rparr> in
      case walletFills of
        None \<Rightarrow> (agent1, None)
      | Some fills \<Rightarrow>
          if fills = [] then (agent1, None) else split_closed_pnl agent1 (last fills))"

text \<open>
  The whole handler. Key handling, the coin lookup and the order itself
  belong to the exchange client; \<open>order\<close> says how they ended.
\<close>

datatype order_result = CoinNotFound | OrderThrew | OrderPlaced

record trade_env =
  tradeClearinghouse :: "balance option"
  tradeSpotClearinghouse :: "(string \<times> real) list option"
  order :: order_result
  walletFills :: "real list option"

datatype trade_outcome =
  Refused gate_decision
| UnknownCoin
| Executed Agent "profit_split option"
| TradeInternalServerError

definition trade :: "trade_env \<Rightarrow> db \<Rightarrow> string \<Rightarrow> trade_outcome \<times> db" where
  "trade env d agentId =
     (case trade_gate (tradeClearinghouse env) (tradeSpotClearinghouse env) d agentId of
        (Authorized agent wallet, d1) \<Rightarrow>
          (case order env of
             CoinNotFound \<Rightarrow> (UnknownCoin, d1)
           | OrderThrew \<Rightarrow> (TradeInternalServerError, d1)
           | OrderPlaced \<Rightarrow>
               (let (agent1, split) = settle_trade agent (walletFills env) in
                case saveAgent agent1 d1 of
                  Inl e \<Rightarrow> (TradeInternalServerError, d1)
                | Inr d2 \<Rightarrow> (Executed agent1 split, d2)))
      | (decision, d1) \<Rightarrow> (Refused decision, d1))"

section \<open>Sequences of requests\<close>



definition fresh_db :: "FundedWallet list \<Rightarrow> db" where
  "fresh_db pool = \<lparr>agents = [], funded_wallets = pool\<rparr>"




section \<open>Concrete requests\<close>

text \<open>
  Three agent ids, two applicant addresses and two wallet addresses, as the
  request schemas accept them; a pool with one funded wallet, an applicant
  whose twelve fills pass every risk gate (seven wins, total 300, drawdown
  0.05), and the database after the first applicant was approved with a wallet
  balance of 1000.
\<close>

abbreviation uuid_1 :: string where "uuid_1 \<equiv> ''00000000-0000-4000-8000-000000000001''"
abbreviation uuid_2 :: string where "uuid_2 \<equiv> ''00000000-0000-4000-8000-000000000002''"
abbreviation addr_A1 :: string where "addr_A1 \<equiv> ''0x00000000000000000000000000000000000000a1''"
abbreviation addr_A2 :: string where "addr_A2 \<equiv> ''0x00000000000000000000000000000000000000a2''"
abbreviation wallet_W1 :: string where "wallet_W1 \<equiv> ''0x00000000000000000000000000000000000000f1''"

definition example_wallet :: FundedWallet where
  "example_wallet = \<lparr>address = wallet_W1, api_id = ''acc_1'', assigned_to = None\<rparr>"

definition example_metrics :: metrics where
  "example_metrics =
     \<lparr>total_pnl = 300, win_rate = 583 / 1000, max_drawdown = 5 / 100, total_trades = 12,
      passes = True, reasons = []\<rparr>"

definition example_env :: "string \<Rightarrow> real \<Rightarrow> evaluate_env" where
  "example_env uuid capital =
     \<lparr>verifyMessage = Some True,
      userFills = Some [100, - 5, 5, 40, 40, 40, 40, 40, 0, 0, 0, 0],
      clearinghouse = Some \<lparr>accountValue = capital, totalMarginUsed = 0, withdrawable = capital\<rparr>,
      spotClearinghouse = Some [],
      randomUUID = uuid, clock = ''2026-01-01T00:00:00.000Z'', bypassPnl = False\<rparr>"

definition example_agent :: "string \<Rightarrow> string \<Rightarrow> real \<Rightarrow> Agent" where
  "example_agent uuid addr capital =
     \<lparr>agent_id = uuid, hl_address = Some addr, hyperliquid_address = None,
      funded_wallet_address = wallet_W1, initial_capital = Some capital,
      current_pnl = 0, agent_profit = 0, firm_profit = 0, status = Active, trade_count = 0,
      created_at = Some ''2026-01-01T00:00:00.000Z''\<rparr>"

definition example_row :: "string \<Rightarrow> string \<Rightarrow> agent_row" where
  "example_row uuid addr =
     \<lparr>col_id = uuid, col_hyperliquid_address = addr, col_funded_wallet_address = wallet_W1,
      col_current_pnl = 0, col_firm_profit = 0, col_agent_profit = 0, col_trade_count = 0,
      col_status = Active\<rparr>"

definition example_db :: db where
  "example_db =
     \<lparr>agents = [example_row uuid_1 addr_A1],
      funded_wallets = [example_wallet\<lparr>assigned_to := Some uuid_1\<rparr>]\<rparr>"




section \<open>Facts about the model\<close>

lemmas RISK_GATES_defs =
  MIN_TRADES_def MIN_WINRATE_def MIN_TOTAL_PNL_def MAX_DRAWDOWN_def
  MAX_DAILY_TRADES_def DRAWDOWN_KILL_def AGENT_PROFIT_SHARE_def FIRM_PROFIT_SHARE_def

subsection \<open>The analyzer loop\<close>














subsection \<open>Rows read back from the tables\<close>

text \<open>
  An agent read back with \<open>getAgent\<close> has no \<open>hl_address\<close>, no
  \<open>initial_capital\<close> and no \<open>created_at\<close>: the drawdown computed for it
  is 0, and \<open>saveAgent\<close> cannot write it back.
\<close>

lemma find_Some_set: "find P xs = Some x \<Longrightarrow> x \<in> set xs \<and> P x"
  by (induction xs) (auto split: if_splits)

lemma find_None_filter: "(\<And>x. x \<in> set xs \<Longrightarrow> Q x \<Longrightarrow> \<not> P x) \<Longrightarrow> find P (filter Q xs) = None"
  by (induction xs) auto

lemma find_append_new:
  "find P xs = None \<Longrightarrow> P y \<Longrightarrow> find P (xs @ [y]) = Some y"
  by (induction xs) (auto split: if_splits)

lemma getAgent_reloaded:
  assumes "getAgent d i = Some a"
  shows "hl_address a = None" and "initial_capital a = None" and "created_at a = None"
    and "agent_id a = i"
  using assms by (auto simp: getAgent_def row_as_Agent_def dest: find_Some_set)

lemma drawdown_of_no_baseline: "initial_capital a = None \<Longrightarrow> drawdown_of a bal = 0"
  by (simp add: drawdown_of_def)

lemma drawdown_check_no_baseline:
  "initial_capital a = None \<Longrightarrow> drawdown_check a w bal d = (Authorized a w, d)"
  by (simp add: drawdown_check_def drawdown_of_no_baseline DRAWDOWN_KILL_def Let_def)


lemma saveAgent_lookup_address:
  assumes "saveAgent agent d = Inr d'" and "hl_address agent = Some hl"
  shows "getAgentByHyperliquidAddress d' hl = Some (row_as_Agent (agent_columns agent hl))"
    and "length (filter (\<lambda>r. col_hyperliquid_address r = hl) (agents d')) = 1"
proof -
  let ?P = "\<lambda>r. col_id r \<noteq> agent_id agent \<and> col_hyperliquid_address r \<noteq> hl"
  from assms have d': "agents d' = filter ?P (agents d) @ [agent_columns agent hl]"
    by (auto simp: saveAgent_def)
  have new: "col_hyperliquid_address (agent_columns agent hl) = hl"
    by (simp add: agent_columns_def)
  have "find (\<lambda>r. col_hyperliquid_address r = hl) (filter ?P (agents d)) = None"
    by (rule find_None_filter) simp
  then show "getAgentByHyperliquidAddress d' hl = Some (row_as_Agent (agent_columns agent hl))"
    by (simp add: getAgentByHyperliquidAddress_def d' find_append_new new)
  have "filter (\<lambda>r. col_hyperliquid_address r = hl) (filter ?P (agents d)) = []"
    by (auto simp: filter_empty_conv)
  then show "length (filter (\<lambda>r. col_hyperliquid_address r = hl) (agents d')) = 1"
    by (simp add: d' new)
qed

subsection \<open>The handlers\<close>





lemma trade_gate_active:
  assumes "getAgent d agentId = Some agent" and "status agent = Active"
    and "trade_count agent < MAX_DAILY_TRADES"
    and "getWalletForAgent d (agent_id agent) = Some wallet"
  shows "trade_gate cs sp d agentId = (Authorized agent wallet, d)"
  using assms getAgent_reloaded(2) [OF assms(1)]
  by (simp add: trade_gate_def drawdown_check_no_baseline)

lemma revoked_is_refused:
  assumes "getAgent d agentId = Some agent" and "status agent = Revoked"
  shows "trade env d agentId = (Refused Forbidden, d)"
  using assms by (simp add: trade_def trade_gate_def)

lemma drawdown_check_revokes:
  assumes "initial_capital a = Some c" and "0 < c"
    and "DRAWDOWN_KILL \<le> (c - accountValue bal) / c"
    and "hl_address a = Some hl"
  shows "\<exists>d'. drawdown_check a w bal d = (ForbiddenDrawdown ((c - accountValue bal) / c), d')
            \<and> saveAgent (a\<lparr>status := Revoked\<rparr>) d = Inr d'"
  using assms by (simp add: drawdown_check_def drawdown_of_def saveAgent_def Let_def)

lemma settle_trade_latest_fill:
  "fills \<noteq> [] \<Longrightarrow>
     settle_trade agent (Some fills)
     = split_closed_pnl (agent\<lparr>trade_count := trade_count agent + 1\<rparr>) (last fills)"
  by (simp add: settle_trade_def)


lemma evaluate_select_db: "evaluate_select env d addr = Inl out \<Longrightarrow> evaluate env d addr = (out, d)"
  by (simp add: evaluate_def)

lemma evaluate_existing:
  "getAgentByHyperliquidAddress d addr = Some existing \<Longrightarrow>
     evaluate env d addr = (AlreadyRegistered existing, d)"
  by (simp add: evaluate_def evaluate_select_def)

lemma evaluate_approved:
  assumes "evaluate env d addr = (out, d1)"
    and "out = Approved agent m \<or> out = ApprovedBypass agent m"
  shows "hl_address agent = Some addr"
    and "\<exists>d0. saveAgent agent d0 = Inr d1"
proof -
  have "evaluate_select env d addr \<noteq> Inl out"
    using assms(2)
    by (auto simp: evaluate_select_def Let_def split: option.splits if_splits)
  with assms(1) obtain w m' where sel: "evaluate_select env d addr = Inr (w, m')"
    by (cases "evaluate_select env d addr") (auto simp: evaluate_def)
  with assms have c: "evaluate_commit env d addr w m' = (out, d1)"
    by (simp add: evaluate_def)
  from c assms(2) show "hl_address agent = Some addr"
    by (auto simp: evaluate_commit_def Let_def saveAgent_def split: if_splits)
  from c assms(2) show "\<exists>d0. saveAgent agent d0 = Inr d1"
    by (auto simp: evaluate_commit_def Let_def split: if_splits sum.splits)
qed

subsection \<open>The invariant of the database\<close>










subsection \<open>The concrete requests, evaluated\<close>

lemma example_analyzePnL:
  "analyzePnL [100, - 5, 5, 40, 40, 40, 40, 40, 0, 0, 0, 0] = example_metrics"
  by (simp add: analyzePnL_def pnl_init_def analyze_step_def Let_def RISK_GATES_defs
      gate_reasons_def Math_round_def example_metrics_def)

lemma example_select:
  "evaluate_select (example_env uuid capital) (fresh_db [example_wallet]) addr
   = Inr (example_wallet, example_metrics)"
  by (simp add: evaluate_select_def example_env_def fresh_db_def getAgentByHyperliquidAddress_def
      getAvailableWallet_def example_wallet_def example_analyzePnL)
    (simp add: example_metrics_def)

lemma example_commit:
  "evaluate_commit (example_env uuid_1 1000) (fresh_db [example_wallet]) addr_A1
     example_wallet example_metrics
   = (Approved (example_agent uuid_1 addr_A1 1000) example_metrics, example_db)"
  by (simp add: evaluate_commit_def example_env_def fresh_db_def getBalance_def
      assignWallet_def saveAgent_def agent_columns_def example_wallet_def example_agent_def
      example_db_def example_row_def example_metrics_def Let_def)

lemma example_evaluate:
  "evaluate (example_env uuid_1 1000) (fresh_db [example_wallet]) addr_A1
   = (Approved (example_agent uuid_1 addr_A1 1000) example_metrics, example_db)"
  by (simp add: evaluate_def example_select example_commit)

lemma example_getAgent:
  "getAgent example_db uuid_1 = Some (row_as_Agent (example_row uuid_1 addr_A1))"
  by (simp add: getAgent_def example_db_def example_row_def)

lemma example_getWalletForAgent:
  "getWalletForAgent example_db uuid_1 = Some (example_wallet\<lparr>assigned_to := Some uuid_1\<rparr>)"
  by (simp add: getWalletForAgent_def example_db_def example_wallet_def)

lemma example_trade_gate:
  "trade_gate cs sp example_db uuid_1
   = (Authorized (row_as_Agent (example_row uuid_1 addr_A1))
        (example_wallet\<lparr>assigned_to := Some uuid_1\<rparr>), example_db)"
proof (rule trade_gate_active [OF example_getAgent])
  show "status (row_as_Agent (example_row uuid_1 addr_A1)) = Active"
    by (simp add: row_as_Agent_def example_row_def)
  show "trade_count (row_as_Agent (example_row uuid_1 addr_A1)) < MAX_DAILY_TRADES"
    by (simp add: row_as_Agent_def example_row_def MAX_DAILY_TRADES_def)
  show "getWalletForAgent example_db (agent_id (row_as_Agent (example_row uuid_1 addr_A1)))
        = Some (example_wallet\<lparr>assigned_to := Some uuid_1\<rparr>)"
    using example_getWalletForAgent by (simp add: row_as_Agent_def example_row_def)
qed


section \<open>The claims\<close>

text \<open>
  \<^bold>\<open>C1\<close> (kill switch). The claim: when the trade gate sees a drawdown
  \<open>(initialCapital - currentValue) / initialCapital \<ge> DRAWDOWN_KILL\<close> for an agent
  with positive initial capital, the agent is revoked, the revocation is stored
  and the call is refused; and a revoked agent stays refused.

  The handler does not do the first half. An agent is onboarded with a wallet
  balance of 1000, so the agent object of \<open>POST /evaluate\<close> has
  \<open>initial_capital = 1000\<close>. The wallet then falls to 800, a drawdown of 0.2.
  \<open>POST /trade\<close> reads the agent back from the table, where the capital is
  not stored, computes a drawdown of 0 and authorizes the trade; the stored
  status stays \<open>Active\<close>. (The second half holds: \<open>revoked_is_refused\<close>,
  \<open>trade_db\<close>.)
\<close>

theorem kill_switch_not_triggered:
  "evaluate (example_env uuid_1 1000) (fresh_db [example_wallet]) addr_A1
     = (Approved (example_agent uuid_1 addr_A1 1000) example_metrics, example_db)
   \<and> initial_capital (example_agent uuid_1 addr_A1 1000) = Some 1000
   \<and> DRAWDOWN_KILL \<le> (1000 - 800) / 1000
   \<and> trade_gate (Some \<lparr>accountValue = 800, totalMarginUsed = 0, withdrawable = 800\<rparr>) (Some [])
        example_db uuid_1
     = (Authorized (row_as_Agent (example_row uuid_1 addr_A1))
          (example_wallet\<lparr>assigned_to := Some uuid_1\<rparr>), example_db)
   \<and> map_option status (getAgent example_db uuid_1) = Some Active"
  by (simp add: example_evaluate example_getAgent example_trade_gate)
     (simp add: example_agent_def row_as_Agent_def example_row_def RISK_GATES_defs)

text \<open>
  \<^bold>\<open>C2\<close> (fail-open). For an agent of the table that is active, under
  the daily quota and has a wallet, a trade-gate check in which a balance read
  fails authorizes the trade and leaves the database as it was. And for an
  agent object whose initial capital is at most 0 the computed drawdown is 0,
  so the drawdown check authorizes whatever the balance is.
\<close>

theorem trade_gate_fail_open:
  "(getAgent d agentId = Some agent \<and> status agent = Active
      \<and> trade_count agent < MAX_DAILY_TRADES
      \<and> getWalletForAgent d (agent_id agent) = Some wallet
      \<and> (clearinghouseState = None \<or> spotClearinghouseState = None)
     \<longrightarrow> trade_gate clearinghouseState spotClearinghouseState d agentId
           = (Authorized agent wallet, d))
   \<and> (initial_capital a = Some c \<and> c \<le> 0
     \<longrightarrow> drawdown_of a bal = 0 \<and> drawdown_check a w bal d0 = (Authorized a w, d0))"
proof -
  have "drawdown_of a bal = 0 \<and> drawdown_check a w bal d0 = (Authorized a w, d0)"
    if "initial_capital a = Some c" "c \<le> 0"
    using that by (simp add: drawdown_check_def drawdown_of_def DRAWDOWN_KILL_def)
  moreover have "trade_gate clearinghouseState spotClearinghouseState d agentId
                 = (Authorized agent wallet, d)"
    if "getAgent d agentId = Some agent" "status agent = Active"
      "trade_count agent < MAX_DAILY_TRADES"
      "getWalletForAgent d (agent_id agent) = Some wallet"
    using that by (rule trade_gate_active)
  ultimately show ?thesis by blast
qed

text \<open>
  C2 at the database after one onboarding, both balance reads failing; and at an
  agent object with initial capital 0 and a negative balance.
\<close>

theorem trade_gate_fail_open_witness:
  "getAgent example_db uuid_1 = Some (row_as_Agent (example_row uuid_1 addr_A1))
   \<and> trade_gate None None example_db uuid_1
     = (Authorized (row_as_Agent (example_row uuid_1 addr_A1))
          (example_wallet\<lparr>assigned_to := Some uuid_1\<rparr>), example_db)
   \<and> drawdown_of (example_agent uuid_1 addr_A1 0)
        \<lparr>accountValue = - 50, totalMarginUsed = 0, withdrawable = 0\<rparr> = 0
   \<and> drawdown_check (example_agent uuid_1 addr_A1 0) example_wallet
        \<lparr>accountValue = - 50, totalMarginUsed = 0, withdrawable = 0\<rparr> example_db
     = (Authorized (example_agent uuid_1 addr_A1 0) example_wallet, example_db)"
  using trade_gate_fail_open [of example_db "uuid_1"
      "row_as_Agent (example_row uuid_1 addr_A1)"
      "example_wallet\<lparr>assigned_to := Some uuid_1\<rparr>" None None
      "example_agent uuid_1 addr_A1 0" 0
      "\<lparr>accountValue = - 50, totalMarginUsed = 0, withdrawable = 0\<rparr>" example_wallet example_db]
    example_getAgent example_getWalletForAgent
  by (simp add: example_agent_def)
    (simp add: row_as_Agent_def example_row_def MAX_DAILY_TRADES_def)

text \<open>
  \<^bold>\<open>C3\<close> (onboarding is idempotent per address). Whenever the table has
  an agent for the address, \<open>POST /evaluate\<close> answers \<open>AlreadyRegistered\<close>
  with that stored agent and leaves the database unchanged, whatever the
  signature check, the fills and the pool would have said. After a request that
  was approved, a second request for the same address is answered with the
  stored row of the agent just created (the same id), and the table holds
  exactly one agent for that address.
\<close>

theorem evaluate_idempotent:
  "(getAgentByHyperliquidAddress d0 addr0 = Some existing \<longrightarrow>
      evaluate env d0 addr0 = (AlreadyRegistered existing, d0))
   \<and> (evaluate env1 d addr = (Approved agent m, d1)
        \<or> evaluate env1 d addr = (ApprovedBypass agent m, d1) \<longrightarrow>
        evaluate env2 d1 addr = (AlreadyRegistered (row_as_Agent (agent_columns agent addr)), d1)
      \<and> agent_id (row_as_Agent (agent_columns agent addr)) = agent_id agent
      \<and> length (filter (\<lambda>r. col_hyperliquid_address r = addr) (agents d1)) = 1)"
proof -
  have "evaluate env2 d1 addr = (AlreadyRegistered (row_as_Agent (agent_columns agent addr)), d1)
      \<and> agent_id (row_as_Agent (agent_columns agent addr)) = agent_id agent
      \<and> length (filter (\<lambda>r. col_hyperliquid_address r = addr) (agents d1)) = 1"
    if "evaluate env1 d addr = (out, d1)" "out = Approved agent m \<or> out = ApprovedBypass agent m"
    for out
  proof -
    from evaluate_approved [OF that] obtain d0 where hl: "hl_address agent = Some addr"
      and saved: "saveAgent agent d0 = Inr d1"
      by blast
    from saveAgent_lookup_address [OF saved hl] show ?thesis
      by (simp add: evaluate_existing row_as_Agent_def agent_columns_def)
  qed
  then show ?thesis
    using evaluate_existing by blast
qed

text \<open>
  C3 at the first onboarding of \<open>addr_A1\<close>, followed by a second request for
  \<open>addr_A1\<close>: once with a valid signature and passing fills, once with an
  invalid signature and a failing fills read.
\<close>

theorem evaluate_idempotent_witness:
  "evaluate (example_env uuid_1 1000) (fresh_db [example_wallet]) addr_A1
     = (Approved (example_agent uuid_1 addr_A1 1000) example_metrics, example_db)
   \<and> evaluate (example_env uuid_2 500) example_db addr_A1
     = (AlreadyRegistered (row_as_Agent (example_row uuid_1 addr_A1)), example_db)
   \<and> agent_id (row_as_Agent (example_row uuid_1 addr_A1)) = uuid_1
   \<and> length (filter (\<lambda>r. col_hyperliquid_address r = addr_A1) (agents example_db)) = 1
   \<and> getAgentByHyperliquidAddress example_db addr_A1
     = Some (row_as_Agent (example_row uuid_1 addr_A1))
   \<and> evaluate \<lparr>verifyMessage = Some False, userFills = None, clearinghouse = None,
               spotClearinghouse = None, randomUUID = uuid_2, clock = ''later'',
               bypassPnl = False\<rparr> example_db addr_A1
     = (AlreadyRegistered (row_as_Agent (example_row uuid_1 addr_A1)), example_db)"
proof -
  have row: "agent_columns (example_agent uuid_1 addr_A1 1000) addr_A1
             = example_row uuid_1 addr_A1"
    by (simp add: agent_columns_def example_agent_def example_row_def)
  have stored: "getAgentByHyperliquidAddress example_db addr_A1
                = Some (row_as_Agent (example_row uuid_1 addr_A1))"
    by (simp add: getAgentByHyperliquidAddress_def example_db_def example_row_def)
  show ?thesis
    using evaluate_idempotent [where ?d0.0 = example_db and ?addr0.0 = "addr_A1"
        and existing = "row_as_Agent (example_row uuid_1 addr_A1)"
        and env = "\<lparr>verifyMessage = Some False, userFills = None, clearinghouse = None,
               spotClearinghouse = None, randomUUID = uuid_2, clock = ''later'',
               bypassPnl = False\<rparr>"
        and ?env1.0 = "example_env uuid_1 1000" and d = "fresh_db [example_wallet]"
        and addr = "addr_A1"
        and agent = "example_agent uuid_1 addr_A1 1000" and m = example_metrics
        and ?d1.0 = example_db
        and ?env2.0 = "example_env uuid_2 500"]
      example_evaluate stored
    by (simp add: row) (simp add: example_agent_def)
qed



text \<open>
  \<^bold>\<open>C5\<close> (too few fills). The claim says that for fewer than
  \<open>MIN_TRADES\<close> fills the other metrics are still computed on the sample.
  They are not: for the single fill 100 the analyzer returns a total PnL of 0
  and a win rate of 0, where the loop over the sample gives 100 and 1.
\<close>

theorem analyzePnL_insufficient_metrics_counterexample:
  "length [100 :: real] < MIN_TRADES
   \<and> totalPnl (analyze_loop pnl_init [100]) = 100
   \<and> total_pnl (analyzePnL [100]) = 0
   \<and> total_pnl (analyzePnL [100]) \<noteq> totalPnl (analyze_loop pnl_init [100])
   \<and> real (wins (analyze_loop pnl_init [100])) / real (length [100 :: real]) = 1
   \<and> win_rate (analyzePnL [100]) = 0
   \<and> win_rate (analyzePnL [100])
       \<noteq> real (wins (analyze_loop pnl_init [100])) / real (length [100 :: real])"
  by (simp add: analyzePnL_def MIN_TRADES_def pnl_init_def analyze_step_def Let_def)

text \<open>
  \<^bold>\<open>C5\<close>, as the analyzer does it: for fewer than \<open>MIN_TRADES\<close> fills
  (the empty history too) the result does not pass, its only reason is the
  shortfall with the number of fills and \<open>MIN_TRADES\<close>, \<open>total_trades\<close> is
  the number of fills, and total PnL, win rate and maximal drawdown are
  returned as 0.
\<close>

theorem analyzePnL_insufficient:
  assumes "length fills < MIN_TRADES"
  shows "\<not> passes (analyzePnL fills)
       \<and> reasons (analyzePnL fills) = [InsufficientTrades (length fills) MIN_TRADES]
       \<and> total_trades (analyzePnL fills) = length fills
       \<and> total_pnl (analyzePnL fills) = 0
       \<and> win_rate (analyzePnL fills) = 0
       \<and> max_drawdown (analyzePnL fills) = 0"
  using assms by (simp add: analyzePnL_def)

text \<open>C5 at the empty history and at a history of two fills.\<close>

theorem analyzePnL_insufficient_witness:
  "length ([] :: real list) < MIN_TRADES
   \<and> \<not> passes (analyzePnL [])
   \<and> reasons (analyzePnL []) = [InsufficientTrades 0 10]
   \<and> length [100, 50 :: real] < MIN_TRADES
   \<and> reasons (analyzePnL [100, 50]) = [InsufficientTrades 2 10]
   \<and> total_pnl (analyzePnL [100, 50]) = 0"
proof -
  have a: "length ([] :: real list) < MIN_TRADES" by (simp add: MIN_TRADES_def)
  have b: "length [100, 50 :: real] < MIN_TRADES" by (simp add: MIN_TRADES_def)
  show ?thesis
    using analyzePnL_insufficient [OF a] analyzePnL_insufficient [OF b] a b
    by (simp add: MIN_TRADES_def)
qed






text \<open>
  \<^bold>\<open>C8\<close> (failed onboarding). A request that ends \<open>Rejected\<close> leaves
  the database as it was and carries the analyzer's result for the fills, which
  did not pass while the bypass was off; a request that ends \<open>NoCapacity\<close>
  leaves the database as it was too. In both cases there is still no agent for
  the address afterwards.
\<close>

theorem evaluate_failure_leaves_state:
  "(evaluate env d addr = (Rejected m, d') \<longrightarrow>
      d' = d \<and> map_option analyzePnL (userFills env) = Some m \<and> \<not> passes m
      \<and> \<not> bypassPnl env \<and> getAgentByHyperliquidAddress d' addr = None)
   \<and> (evaluate env d addr = (NoCapacity, d') \<longrightarrow>
        d' = d \<and> getAvailableWallet d = None \<and> getAgentByHyperliquidAddress d' addr = None)"
proof (cases "evaluate_select env d addr")
  case (Inl out)
  then have e: "evaluate env d addr = (out, d)"
    by (rule evaluate_select_db)
  from Inl have "map_option analyzePnL (userFills env) = Some m \<and> \<not> passes m
      \<and> \<not> bypassPnl env \<and> getAgentByHyperliquidAddress d addr = None"
    if "out = Rejected m"
    using that by (auto simp: evaluate_select_def Let_def split: option.splits if_splits)
  moreover from Inl have "getAvailableWallet d = None \<and> getAgentByHyperliquidAddress d addr = None"
    if "out = NoCapacity"
    using that by (auto simp: evaluate_select_def Let_def split: option.splits if_splits)
  ultimately show ?thesis
    using e by auto
next
  case (Inr sel)
  then show ?thesis
    by (cases sel)
      (auto simp: evaluate_def evaluate_commit_def saveAgent_def Let_def split: if_splits)
qed

text \<open>
  C8 at a request with a single fill (rejected) and at a request on a pool with
  no free wallet (no capacity).
\<close>

theorem evaluate_failure_leaves_state_witness:
  "evaluate ((example_env uuid_2 1000)\<lparr>userFills := Some [100]\<rparr>) example_db addr_A2
     = (Rejected (analyzePnL [100]), example_db)
   \<and> \<not> passes (analyzePnL [100])
   \<and> evaluate (example_env uuid_2 1000) example_db addr_A2 = (NoCapacity, example_db)
   \<and> getAvailableWallet example_db = None
   \<and> getAgentByHyperliquidAddress example_db addr_A2 = None"
proof -
  have none: "getAgentByHyperliquidAddress example_db addr_A2 = None"
    by (simp add: getAgentByHyperliquidAddress_def example_db_def example_row_def)
  have full: "getAvailableWallet example_db = None"
    by (simp add: getAvailableWallet_def example_db_def example_wallet_def)
  have small: "\<not> passes (analyzePnL [100])"
    by (simp add: analyzePnL_def MIN_TRADES_def)
  have r: "evaluate ((example_env uuid_2 1000)\<lparr>userFills := Some [100]\<rparr>) example_db addr_A2
     = (Rejected (analyzePnL [100]), example_db)"
    by (simp add: evaluate_def evaluate_select_def none small example_env_def Let_def)
  have n: "evaluate (example_env uuid_2 1000) example_db addr_A2 = (NoCapacity, example_db)"
    by (simp add: evaluate_def evaluate_select_def none full example_env_def Let_def
        example_analyzePnL)
      (simp add: example_metrics_def)
  show ?thesis
    using evaluate_failure_leaves_state [of "(example_env uuid_2 1000)\<lparr>userFills := Some [100]\<rparr>"
        example_db "addr_A2" "analyzePnL [100]" example_db]
      evaluate_failure_leaves_state [of "example_env uuid_2 1000" example_db "addr_A2"
        "analyzePnL [100]" example_db]
      r n
    by simp
qed




text \<open>
  \<^bold>\<open>C10\<close> (what the table keeps of an agent). After
  \<open>saveAgent\<close> the agent read back by its id has the id, the address (under
  the key \<open>hyperliquid_address\<close>), the wallet address, the three totals, the
  trade count and the status of the agent written, and neither
  \<open>initial_capital\<close> nor \<open>created_at\<close>. So for every agent read from the
  table the trade gate has no baseline: the drawdown it computes is 0.
\<close>

theorem saveAgent_getAgent_roundtrip:
  "(saveAgent agent d = Inr d' \<longrightarrow>
      getAgent d' (agent_id agent) =
        Some \<lparr>agent_id = agent_id agent, hl_address = None,
              hyperliquid_address = hl_address agent,
              funded_wallet_address = funded_wallet_address agent, initial_capital = None,
              current_pnl = current_pnl agent, agent_profit = agent_profit agent,
              firm_profit = firm_profit agent, status = status agent,
              trade_count = trade_count agent, created_at = None\<rparr>)
   \<and> (getAgent d0 i = Some reloaded \<longrightarrow>
        initial_capital reloaded = None \<and> created_at reloaded = None
        \<and> drawdown_of reloaded bal = 0)"
proof -
  have "getAgent d' (agent_id agent) =
        Some \<lparr>agent_id = agent_id agent, hl_address = None,
              hyperliquid_address = hl_address agent,
              funded_wallet_address = funded_wallet_address agent, initial_capital = None,
              current_pnl = current_pnl agent, agent_profit = agent_profit agent,
              firm_profit = firm_profit agent, status = status agent,
              trade_count = trade_count agent, created_at = None\<rparr>"
    if saved: "saveAgent agent d = Inr d'"
  proof -
    from saved obtain hl where hl: "hl_address agent = Some hl"
      and d': "d' = d\<lparr>agents :=
                 filter (\<lambda>r. col_id r \<noteq> agent_id agent \<and> col_hyperliquid_address r \<noteq> hl)
                   (agents d) @ [agent_columns agent hl]\<rparr>"
      by (auto simp: saveAgent_def split: option.splits)
    have "find (\<lambda>r. col_id r = agent_id agent)
            (filter (\<lambda>r. col_id r \<noteq> agent_id agent \<and> col_hyperliquid_address r \<noteq> hl) (agents d))
          = None"
      by (rule find_None_filter) simp
    then have "find (\<lambda>r. col_id r = agent_id agent) (agents d') = Some (agent_columns agent hl)"
      unfolding d' by (simp add: find_append_new agent_columns_def)
    then show ?thesis
      by (simp add: getAgent_def row_as_Agent_def agent_columns_def hl)
  qed
  moreover have "initial_capital reloaded = None \<and> created_at reloaded = None
        \<and> drawdown_of reloaded bal = 0"
    if "getAgent d0 i = Some reloaded"
    using getAgent_reloaded [OF that] by (simp add: drawdown_of_no_baseline)
  ultimately show ?thesis by blast
qed

text \<open>C10 at the agent of the first onboarding, written with capital 1000.\<close>

theorem saveAgent_getAgent_roundtrip_witness:
  "saveAgent (example_agent uuid_1 addr_A1 1000)
     (assignWallet wallet_W1 uuid_1 (fresh_db [example_wallet])) = Inr example_db
   \<and> initial_capital (example_agent uuid_1 addr_A1 1000) = Some 1000
   \<and> getAgent example_db uuid_1
     = Some \<lparr>agent_id = uuid_1, hl_address = None, hyperliquid_address = Some addr_A1,
             funded_wallet_address = wallet_W1, initial_capital = None, current_pnl = 0,
             agent_profit = 0, firm_profit = 0, status = Active, trade_count = 0,
             created_at = None\<rparr>
   \<and> drawdown_of (row_as_Agent (example_row uuid_1 addr_A1))
        \<lparr>accountValue = 0, totalMarginUsed = 0, withdrawable = 0\<rparr> = 0"
proof -
  have s: "saveAgent (example_agent uuid_1 addr_A1 1000)
     (assignWallet wallet_W1 uuid_1 (fresh_db [example_wallet])) = Inr example_db"
    by (simp add: saveAgent_def example_agent_def assignWallet_def fresh_db_def
        example_wallet_def example_db_def example_row_def agent_columns_def)
  show ?thesis
    using saveAgent_getAgent_roundtrip [of "example_agent uuid_1 addr_A1 1000"
        "assignWallet wallet_W1 uuid_1 (fresh_db [example_wallet])" example_db
        example_db "uuid_1" "row_as_Agent (example_row uuid_1 addr_A1)"
        "\<lparr>accountValue = 0, totalMarginUsed = 0, withdrawable = 0\<rparr>"]
      s example_getAgent
    by (simp add: example_agent_def drawdown_of_def)
qed

end
